theory Spec2Isabelle
  imports Main
begin

section \<open>The AWS signing client: a signing decorator around an HTTP transport\<close>

text \<open>
  A shallow embedding of \<^verbatim>\<open>client.go\<close> (package \<^verbatim>\<open>aws_signing_client\<close>): the factory
  \<^verbatim>\<open>New\<close> and the method \<^verbatim>\<open>Signer.RoundTrip\<close>.

  Go strings and byte slices are byte sequences; an Isabelle \<^typ>\<open>char\<close> is one byte, so
  both are \<^typ>\<open>string\<close>. Pointers that may be \<^verbatim>\<open>nil\<close> are options. The request is a
  pointer in Go and is mutated in place; the model passes the request and returns the
  request as it is left. The collaborators the decorator calls (the logger, the V4 signer,
  the inner transport, the body stream) are recorded, in order, in a list of calls.
\<close>

subsection \<open>Errors\<close>

text \<open>
  The three configuration errors of \<^verbatim>\<open>client.go\<close>, and \<open>Err\<close> for the errors that come
  from a collaborator (a body read, the signer, the inner transport), named by message.
\<close>

datatype error =
    MissingSignerError
  | MissingServiceError
  | MissingRegionError
  | Err string

fun Error :: "error \<Rightarrow> string" where
  "Error MissingSignerError = ''No signer was provided. Cannot create client.''"
| "Error MissingServiceError = ''No AWS service abbreviation was provided. Cannot create client.''"
| "Error MissingRegionError = ''No AWS region was provided. Cannot create client.''"
| "Error (Err m) = m"

subsection \<open>Strings: \<^verbatim>\<open>strings.HasPrefix\<close>, \<^verbatim>\<open>strings.Contains\<close>\<close>

definition HasPrefix :: "string \<Rightarrow> string \<Rightarrow> bool" where
  \<comment> \<open>\<^verbatim>\<open>len(s) >= len(prefix) && s[:len(prefix)] == prefix\<close>\<close>
  "HasPrefix s pre = (length pre \<le> length s \<and> take (length pre) s = pre)"

fun Contains :: "string \<Rightarrow> string \<Rightarrow> bool" where
  \<comment> \<open>\<^verbatim>\<open>substr\<close> occurs in \<^verbatim>\<open>s\<close> at some index\<close>
  "Contains [] substr = HasPrefix [] substr"
| "Contains (c # s) substr = (HasPrefix (c # s) substr \<or> Contains s substr)"

subsection \<open>Path escaping: \<^verbatim>\<open>rest.EscapePath\<close>\<close>

text \<open>
  \<^verbatim>\<open>rest.EscapePath\<close> belongs to the imported package
  \<^verbatim>\<open>github.com/aws/aws-sdk-go/private/protocol/rest\<close>. It is transcribed here from that
  package:
  \<^verbatim>\<open>
  noEscape[i] = (i >= 'A' && i <= 'Z') || (i >= 'a' && i <= 'z') ||
                (i >= '0' && i <= '9') || i == '-' || i == '.' || i == '_' || i == '~'

  func EscapePath(path string, encodeSep bool) string {
      var buf bytes.Buffer
      for i := 0; i < len(path); i++ {
          c := path[i]
          if noEscape[c] || (c == '/' && !encodeSep) {
              buf.WriteByte(c)
          } else {
              fmt.Fprintf(&buf, "%%%02X", c)
          }
      }
      return buf.String()
  }
  \<close>
\<close>

definition noEscape :: "char \<Rightarrow> bool" where
  "noEscape c =
     (let i = (of_char c :: nat) in
        (of_char CHR ''A'' \<le> i \<and> i \<le> of_char CHR ''Z'') \<or>
        (of_char CHR ''a'' \<le> i \<and> i \<le> of_char CHR ''z'') \<or>
        (of_char CHR ''0'' \<le> i \<and> i \<le> of_char CHR ''9'') \<or>
        c = CHR ''-'' \<or> c = CHR ''.'' \<or> c = CHR ''_'' \<or> c = CHR ''~'')"

definition upper_hex_digit :: "nat \<Rightarrow> char" where
  \<comment> \<open>one digit of \<^verbatim>\<open>%X\<close>, for a value below 16\<close>
  "upper_hex_digit n = ''0123456789ABCDEF'' ! n"

definition percent_02X :: "char \<Rightarrow> string" where
  \<comment> \<open>\<^verbatim>\<open>fmt.Fprintf(&buf, "%%%02X", c)\<close> for a byte \<^verbatim>\<open>c\<close>\<close>
  "percent_02X c =
     [CHR ''%'', upper_hex_digit (of_char c div 16), upper_hex_digit (of_char c mod 16)]"

fun EscapePath :: "string \<Rightarrow> bool \<Rightarrow> string" where
  "EscapePath [] encodeSep = []"
| "EscapePath (c # path) encodeSep =
     (if noEscape c \<or> (c = CHR ''/'' \<and> \<not> encodeSep) then [c] else percent_02X c)
       @ EscapePath path encodeSep"

subsection \<open>Time: \<^verbatim>\<open>time.Now\<close>, \<^verbatim>\<open>Format(time.RFC3339)\<close>, \<^verbatim>\<open>Sub\<close>\<close>

text \<open>
  A \<^verbatim>\<open>time.Time\<close> is modelled by what the program observes of it: the civil date and
  time in the value's own location, the location's offset from UTC in seconds, and the
  reading of the monotonic clock in nanoseconds (which \<^verbatim>\<open>Sub\<close> uses).
\<close>

record time =
  year :: int
  month :: nat
  day :: nat
  hour :: nat
  minute :: nat
  second :: nat
  zone_offset :: int
  monotonic :: int

fun decimal :: "nat \<Rightarrow> string" where
  "decimal n =
     (if n < 10 then [''0123456789'' ! n] else decimal (n div 10) @ [''0123456789'' ! (n mod 10)])"

declare decimal.simps [simp del]

definition appendInt :: "int \<Rightarrow> nat \<Rightarrow> string" where
  \<comment> \<open>the decimal form of \<open>x\<close>, zero-padded to \<open>width\<close> digits, after a minus sign if negative\<close>
  "appendInt x width =
     (let ds = decimal (nat \<bar>x\<bar>)
      in (if x < 0 then ''-'' else []) @ replicate (width - length ds) CHR ''0'' @ ds)"

definition quo :: "int \<Rightarrow> int \<Rightarrow> int" where
  \<comment> \<open>Go's integer division, which truncates towards zero\<close>
  "quo a b = sgn a * sgn b * (\<bar>a\<bar> div \<bar>b\<bar>)"

definition Format_RFC3339 :: "time \<Rightarrow> string" where
  \<comment> \<open>\<^verbatim>\<open>t.Format("2006-01-02T15:04:05Z07:00")\<close>\<close>
  "Format_RFC3339 t =
     appendInt (year t) 4 @ ''-'' @ appendInt (int (month t)) 2 @ ''-'' @ appendInt (int (day t)) 2
     @ ''T'' @ appendInt (int (hour t)) 2 @ '':'' @ appendInt (int (minute t)) 2
     @ '':'' @ appendInt (int (second t)) 2
     @ (if zone_offset t = 0 then ''Z''
        else let zone = quo (zone_offset t) 60
             in (if zone < 0 then ''-'' else ''+'')
                @ appendInt (quo \<bar>zone\<bar> 60) 2 @ '':'' @ appendInt (\<bar>zone\<bar> mod 60) 2)"

definition Sub :: "time \<Rightarrow> time \<Rightarrow> int" where
  \<comment> \<open>\<^verbatim>\<open>t.Sub(u)\<close>, a \<^verbatim>\<open>Duration\<close> (int64 nanoseconds), saturating at the ends of int64\<close>
  "Sub t u = max (- (2 ^ 63)) (min (2 ^ 63 - 1) (monotonic t - monotonic u))"

definition latency_ms :: "time \<Rightarrow> time \<Rightarrow> int" where
  \<comment> \<open>\<^verbatim>\<open>int64(time.Now().Sub(start)/time.Millisecond)\<close>, with \<open>stop\<close> the second reading\<close>
  "latency_ms start stop = quo (Sub stop start) 1000000"

text \<open>
  The clock is part of the world: \<open>clock w k\<close> is what the \<open>k\<close>-th call of
  \<^verbatim>\<open>time.Now()\<close> returns, and \<open>ticks w\<close> counts the calls made so far.
\<close>

record world =
  clock :: "nat \<Rightarrow> time"
  ticks :: nat

definition time_Now :: "world \<Rightarrow> time \<times> world" where
  "time_Now w = (clock w (ticks w), w\<lparr>ticks := Suc (ticks w)\<rparr>)"

subsection \<open>Readers: a request body, \<^verbatim>\<open>ioutil.ReadAll\<close>, \<^verbatim>\<open>bytes.NewReader\<close>\<close>

text \<open>
  A reader is a stream read from front to back: \<open>unread\<close> holds the bytes it has still to
  deliver, and \<open>failure\<close> says how it ends, with \<^verbatim>\<open>io.EOF\<close> (\<open>None\<close>) or with an error.
  \<^verbatim>\<open>ioutil.ReadAll\<close> returns the bytes read and the error (\<^verbatim>\<open>io.EOF\<close> is not an
  error), and leaves the reader at its end. \<^verbatim>\<open>bytes.NewReader(d)\<close> is a reader at
  the start of \<open>d\<close> that ends with \<^verbatim>\<open>io.EOF\<close>; \<^verbatim>\<open>ioutil.NopCloser\<close> only adds a
  \<^verbatim>\<open>Close\<close> that does nothing.
\<close>

datatype reader = Reader (unread: string) (failure: "error option")

definition ReadAll :: "reader \<Rightarrow> (string \<times> error option) \<times> reader" where
  "ReadAll r = ((unread r, failure r), Reader [] (failure r))"

definition bytes_NewReader :: "string \<Rightarrow> reader" where
  "bytes_NewReader d = Reader d None"

definition NopCloser :: "reader \<Rightarrow> reader" where
  "NopCloser r = r"

subsection \<open>Requests and responses\<close>

text \<open>
  \<^verbatim>\<open>http.Header\<close> is \<^verbatim>\<open>map[string][]string\<close>. \<^verbatim>\<open>Header.Set\<close> stores the one value
  under the canonical form of the key; the only key the program sets is \<^verbatim>\<open>"Date"\<close>,
  which is its own canonical form. The \<^verbatim>\<open>http.RoundTripper\<close> contract has the request's
  \<^verbatim>\<open>URL\<close> and \<^verbatim>\<open>Header\<close> initialised, so neither is optional here.
\<close>

type_synonym Header = "string \<rightharpoonup> string list"

definition Header_Set :: "Header \<Rightarrow> string \<Rightarrow> string \<Rightarrow> Header" where
  "Header_Set h key v = h(key \<mapsto> [v])"

type_synonym Context = nat

record url =
  Scheme :: string
  Opaque :: string
  Host :: string
  Path :: string
  RawPath :: string
  RawQuery :: string
  Fragment :: string

record request =
  Method :: string
  URL :: url
  Header :: Header
  Body :: "reader option"
  Ctx :: Context

record response =
  StatusCode :: int
  Content :: string

subsection \<open>Collaborators and the calls made on them\<close>

datatype arg = ArgString string | ArgInt int | ArgError error | ArgRequest request

datatype call =
    is_Printf: Printf Context string "arg list"
  | is_ReadAll: Body_ReadAll reader
  | is_Sign: V4_Sign (sign_req: request) (sign_body: "reader option") (sign_service: string)
      (sign_region: string) (sign_time: time)
  | is_RoundTrip: Transport_RoundTrip (sent: request)

text \<open>
  A call of a \<^verbatim>\<open>RoundTripper\<close> returns a response and an error, and leaves the request
  (which it holds by pointer) and the world in some state.
\<close>

record result =
  req_after :: request
  resp :: "response option"
  err :: "error option"

type_synonym RoundTripper = "request \<Rightarrow> world \<Rightarrow> result \<times> world"

text \<open>
  \<^verbatim>\<open>(*v4.Signer).Sign(r, body, service, region, signTime)\<close> of the AWS SDK: it returns
  the signed headers, which the program discards, and an error, and it holds the request by
  pointer. The model gives it the request and takes the request back with the error.
\<close>

type_synonym V4Signer = "request \<Rightarrow> reader option \<Rightarrow> string \<Rightarrow> string \<Rightarrow> time \<Rightarrow> request \<times> error option"

datatype writer = Discard | Writer nat

datatype log_Logger = log_New writer string int

datatype ContextLogger = DefaultLogger log_Logger | OtherLogger nat

definition DefaultLogger_Printf ::
  "log_Logger \<Rightarrow> Context \<Rightarrow> string \<Rightarrow> arg list \<Rightarrow> writer \<times> string \<times> arg list" where
  \<comment> \<open>lines 52 to 54: the context is ignored; the line goes to the writer of the \<^verbatim>\<open>log.Logger\<close>\<close>
  "DefaultLogger_Printf dl ctx format v = (case dl of log_New out prefix flag \<Rightarrow> (out, format, v))"

text \<open>
  The fields of a \<^verbatim>\<open>Signer\<close> are unexported and \<^verbatim>\<open>New\<close> fills every one of them, so none
  is optional.
\<close>

record Signer =
  transport :: RoundTripper
  v4 :: V4Signer
  service :: string
  region :: string
  logger :: ContextLogger

subsection \<open>\<^verbatim>\<open>Signer.RoundTrip\<close>\<close>

definition already_signed :: "request \<Rightarrow> bool" where
  \<comment> \<open>line 95: \<^verbatim>\<open>h, ok := req.Header["Authorization"]; ok && len(h) > 0 && strings.HasPrefix(h[0], "AWS4")\<close>\<close>
  "already_signed req =
     (case Header req ''Authorization'' of
        None \<Rightarrow> False
      | Some h \<Rightarrow> (case h of [] \<Rightarrow> False | v # _ \<Rightarrow> HasPrefix v ''AWS4''))"

definition normalize_URL :: "url \<Rightarrow> url" where
  \<comment> \<open>lines 100 to 104, on \<^verbatim>\<open>req.URL\<close>\<close>
  "normalize_URL u =
     (let u1 = u\<lparr>Scheme := ''https''\<rparr>
      in if Contains (RawPath u1) ''%2C''
         then u1\<lparr>RawPath := EscapePath (RawPath u1) False\<rparr>
         else u1)"

type_synonym outcome = "(result \<times> world) \<times> call list"

definition forward_signed :: "Signer \<Rightarrow> Context \<Rightarrow> request \<Rightarrow> int \<Rightarrow> world \<Rightarrow> outcome" where
  \<comment> \<open>lines 134 to 146: the signing step left no error\<close>
  "forward_signed s ctx req latency w =
     (let (start, w1) = time_Now w;
          (r, w2) = transport s req w1;
          (stop, w3) = time_Now w2;
          latency2 = latency_ms start stop
      in ((r, w3),
          [Printf ctx ''Signing succesful. Latency: %d ms'' [ArgInt latency],
           Transport_RoundTrip req,
           (case err r of
              Some e \<Rightarrow>
                Printf ctx ''Error from RoundTripper. Latency: %d ms, Error: %s''
                  [ArgInt latency2, ArgError e]
            | None \<Rightarrow>
                Printf ctx ''Successful response from RoundTripper. Latency: %d ms''
                  [ArgInt latency2])]))"

definition after_switch ::
  "Signer \<Rightarrow> Context \<Rightarrow> request \<Rightarrow> error option \<Rightarrow> int \<Rightarrow> world \<Rightarrow> call list \<Rightarrow> outcome" where
  \<comment> \<open>lines 130 to 146: \<open>e\<close> is the function's variable \<^verbatim>\<open>err\<close> as the switch leaves it\<close>
  "after_switch s ctx req e latency w cs =
     (case e of
        Some x \<Rightarrow>
          ((\<lparr>req_after = req, resp = None, err = Some x\<rparr>, w),
           cs @ [Printf ctx (''Error while attempting to sign request: '' @ [CHR 0x27] @ ''%s'' @ [CHR 0x27])
                   [ArgError x]])
      | None \<Rightarrow>
          (let (rw, cs2) = forward_signed s ctx req latency w in (rw, cs @ cs2)))"

text \<open>
  In the \<^verbatim>\<open>default\<close> clause of the switch, line 118 reads
  \<^verbatim>\<open>d, err := ioutil.ReadAll(req.Body)\<close>. A case clause is a block of its own, so this
  \<^verbatim>\<open>:=\<close> declares a new \<^verbatim>\<open>err\<close> local to the clause, and the assignment
  \<^verbatim>\<open>_, err = s.v4.Sign(...)\<close> of line 126 writes that local variable. The function's
  \<^verbatim>\<open>err\<close> of line 110, which line 130 tests, is assigned only in the \<^verbatim>\<open>case nil\<close>
  clause; after the \<^verbatim>\<open>default\<close> clause it is still \<^verbatim>\<open>nil\<close>. Below, \<open>e_inner\<close> is
  the clause's variable and \<open>after_switch\<close> receives \<open>None\<close>.
\<close>

definition RoundTrip :: "Signer \<Rightarrow> request \<Rightarrow> world \<Rightarrow> outcome" where
  "RoundTrip s req w =
     (let ctx = Ctx req in
      if already_signed req then
        (transport s req w,
         [Printf ctx ''Received request to sign that is already signed. Skipping.'' [],
          Transport_RoundTrip req])
      else
        let rawpath = RawPath (URL req);
            req1 = req\<lparr>URL := normalize_URL (URL req)\<rparr>;
            escaping =
              (if Contains rawpath ''%2C''
               then [Printf ctx (''Escaping path for URL path '' @ [CHR 0x27] @ ''%s'' @ [CHR 0x27])
                       [ArgString rawpath]]
               else []);
            (t, w1) = time_Now w;
            req2 = req1\<lparr>Header := Header_Set (Header req1) ''Date'' (Format_RFC3339 t)\<rparr>;
            cs = escaping @ [Printf ctx ''Request to be signed: %+v'' [ArgRequest req2]]
        in case Body req2 of
             None \<Rightarrow>
               (let (start, w2) = time_Now w1;
                    (req3, e) = v4 s req2 None (service s) (region s) t;
                    (stop, w3) = time_Now w2
                in after_switch s ctx req3 e (latency_ms start stop) w3
                     (cs @ [Printf ctx ''Signing request with no body...'' [],
                            V4_Sign req2 None (service s) (region s) t]))
           | Some body \<Rightarrow>
               (let ((d, rerr), body2) = ReadAll body in
                case rerr of
                  Some x \<Rightarrow>
                    ((\<lparr>req_after = req2\<lparr>Body := Some body2\<rparr>, resp = None, err = Some x\<rparr>, w1),
                     cs @ [Body_ReadAll body,
                           Printf ctx (''Error while attempting to read request body: '' @ [CHR 0x27]
                                         @ ''%s'' @ [CHR 0x27])
                             [ArgError x]])
                | None \<Rightarrow>
                    (let req3 = req2\<lparr>Body := Some (NopCloser (bytes_NewReader d))\<rparr>;
                         (start, w2) = time_Now w1;
                         (req4, e_inner) =
                            v4 s req3 (Some (bytes_NewReader d)) (service s) (region s) t;
                         (stop, w3) = time_Now w2
                     in after_switch s ctx req4 None (latency_ms start stop) w3
                          (cs @ [Body_ReadAll body,
                                 Printf ctx ''Signing request with body...'' [],
                                 V4_Sign req3 (Some (bytes_NewReader d)) (service s) (region s) t]))))"

subsection \<open>\<^verbatim>\<open>New\<close>\<close>

text \<open>
  An \<^verbatim>\<open>*http.Client\<close> is an address in a store of clients; \<^verbatim>\<open>http.DefaultClient\<close> is
  one such address and \<^verbatim>\<open>http.DefaultTransport\<close> a \<^verbatim>\<open>RoundTripper\<close>, both global. A
  \<^verbatim>\<open>*Signer\<close> stored in a \<^verbatim>\<open>RoundTripper\<close> variable is its method \<^verbatim>\<open>RoundTrip\<close>; the list
  of calls is an observation of the model and no part of the interface.
\<close>

type_synonym addr = nat

record Client =
  Transport :: "RoundTripper option"
  Timeout :: int

record globals =
  DefaultClient :: addr
  DefaultTransport :: RoundTripper
  clients :: "addr \<Rightarrow> Client"

definition Signer_RoundTripper :: "Signer \<Rightarrow> RoundTripper" where
  "Signer_RoundTripper s = (\<lambda>req w. fst (RoundTrip s req w))"

definition Client_transport :: "globals \<Rightarrow> addr \<Rightarrow> RoundTripper" where
  \<comment> \<open>\<^verbatim>\<open>net/http\<close>: the transport a client sends with, \<^verbatim>\<open>DefaultTransport\<close> when its field is nil\<close>
  "Client_transport g c =
     (case Transport (clients g c) of None \<Rightarrow> DefaultTransport g | Some rt \<Rightarrow> rt)"

definition New ::
  "V4Signer option \<Rightarrow> addr option \<Rightarrow> string \<Rightarrow> string \<Rightarrow> ContextLogger option \<Rightarrow> globals
     \<Rightarrow> (addr option \<times> error option) \<times> globals" where
  "New v4s client service_name region_name cl g =
     (case v4s of
        None \<Rightarrow> ((None, Some MissingSignerError), g)
      | Some sign \<Rightarrow>
          if service_name = [] then ((None, Some MissingServiceError), g)
          else if region_name = [] then ((None, Some MissingRegionError), g)
          else
            let c = (case client of None \<Rightarrow> DefaultClient g | Some a \<Rightarrow> a);
                cl2 = (case cl of None \<Rightarrow> DefaultLogger (log_New Discard [] 0) | Some l \<Rightarrow> l);
                s = \<lparr>transport =
                       (case Transport (clients g c) of None \<Rightarrow> DefaultTransport g | Some rt \<Rightarrow> rt),
                     v4 = sign, service = service_name, region = region_name, logger = cl2\<rparr>
            in ((Some c, None),
                g\<lparr>clients := (clients g)(c := (clients g c)\<lparr>Transport := Some (Signer_RoundTripper s)\<rparr>)\<rparr>))"

subsection \<open>Test doubles and sample inputs\<close>

text \<open>
  A clock that advances five milliseconds per reading, a signer that writes an
  \<^verbatim>\<open>Authorization\<close> header, a signer that always fails, a transport that answers 200,
  and a few requests.
\<close>

definition stub_clock :: "nat \<Rightarrow> time" where
  "stub_clock k =
     \<lparr>year = 2026, month = 10, day = 30, hour = 22, minute = 33, second = 7,
      zone_offset = 0, monotonic = 5000000 * int k\<rparr>"

definition world0 :: world where
  "world0 = \<lparr>clock = stub_clock, ticks = 0\<rparr>"

definition stub_sign :: V4Signer where
  "stub_sign r body sv rg t =
     (r\<lparr>Header := Header_Set (Header r) ''Authorization'' ''AWS4-HMAC-SHA256 Credential=stub''\<rparr>,
      None)"

definition failing_sign :: V4Signer where
  "failing_sign r body sv rg t = (r, Some (Err ''signing failed''))"

definition stub_response :: response where
  "stub_response = \<lparr>StatusCode = 200, Content = ''ok''\<rparr>"

definition stub_transport :: RoundTripper where
  "stub_transport r w = (\<lparr>req_after = r, resp = Some stub_response, err = None\<rparr>, w)"

definition stub_signer :: "V4Signer \<Rightarrow> Signer" where
  "stub_signer sign =
     \<lparr>transport = stub_transport, v4 = sign, service = ''es'', region = ''us-east-1'',
      logger = DefaultLogger (log_New Discard [] 0)\<rparr>"

definition get_request :: request where
  "get_request =
     \<lparr>Method = ''GET'',
      URL = \<lparr>Scheme = ''http'', Opaque = [], Host = ''example.com'', Path = ''/,foo'',
             RawPath = ''/%2Cfoo'', RawQuery = [], Fragment = []\<rparr>,
      Header = Map.empty, Body = None, Ctx = 0\<rparr>"

definition post_request :: request where
  "post_request = get_request\<lparr>Method := ''POST'', Body := Some (Reader ''abc'' None)\<rparr>"

definition presigned_request :: request where
  "presigned_request =
     get_request\<lparr>Header := [''Authorization'' \<mapsto> [''AWS4-HMAC-SHA256 Credential=earlier'']]\<rparr>"

definition broken_body_request :: request where
  "broken_body_request =
     get_request\<lparr>Method := ''POST'', Body := Some (Reader ''ab'' (Some (Err ''unexpected EOF'')))\<rparr>"

definition comma_url :: url where
  \<comment> \<open>what \<^verbatim>\<open>url.Parse("http://example.com/a,b%2Cc")\<close> gives\<close>
  "comma_url =
     \<lparr>Scheme = ''http'', Opaque = [], Host = ''example.com'', Path = ''/a,b,c'',
      RawPath = ''/a,b%2Cc'', RawQuery = [], Fragment = []\<rparr>"

definition globals0 :: globals where
  "globals0 =
     \<lparr>DefaultClient = 0, DefaultTransport = stub_transport,
      clients = (\<lambda>a. \<lparr>Transport = None, Timeout = 0\<rparr>)\<rparr>"

definition signed_call :: call where
  \<comment> \<open>the call of the signer made for \<open>get_request\<close>\<close>
  "signed_call = hd (filter is_Sign (snd (RoundTrip (stub_signer stub_sign) get_request world0)))"

section \<open>Properties\<close>

subsection \<open>Unfolding the model\<close>

lemmas rt_defs = RoundTrip_def after_switch_def forward_signed_def time_Now_def ReadAll_def
  Let_def split_def

lemmas stub_defs = stub_clock_def world0_def stub_sign_def failing_sign_def stub_response_def
  stub_transport_def stub_signer_def get_request_def post_request_def presigned_request_def
  broken_body_request_def

lemma already_signed_iff:
  "already_signed req \<longleftrightarrow>
     (\<exists>v vs. Header req ''Authorization'' = Some (v # vs) \<and> HasPrefix v ''AWS4'')"
  by (auto simp: already_signed_def split: option.splits list.splits)

lemma Scheme_normalize_URL: "Scheme (normalize_URL u) = ''https''"
  by (simp add: normalize_URL_def Let_def)

lemma ReadAll_call_origin:
  assumes "Body_ReadAll b \<in> set (snd (RoundTrip s req w))"
  shows "\<not> already_signed req \<and> Body req = Some b"
  using assms
  by (auto simp: rt_defs Header_Set_def split: if_splits option.splits)

lemma ReadAll_call_made:
  assumes "\<not> already_signed req" and "Body req = Some b"
  shows "Body_ReadAll b \<in> set (snd (RoundTrip s req w))"
  using assms
  by (simp add: rt_defs split: option.splits)

lemma signed_call_in_calls:
  "signed_call \<in> set (snd (RoundTrip (stub_signer stub_sign) get_request world0))
   \<and> is_Sign signed_call"
  by (simp add: signed_call_def rt_defs stub_defs already_signed_def Header_Set_def HasPrefix_def)

subsection \<open>Errors of the signer\<close>

text \<open>
  Without a body, an error of the signer is returned and nothing is forwarded.
\<close>

lemma sign_error_without_body:
  assumes "\<not> already_signed req" and "Body req = None"
    and "c \<in> set (snd (RoundTrip s req w))" and "is_Sign c"
    and "snd (v4 s (sign_req c) (sign_body c) (sign_service c) (sign_region c) (sign_time c)) = Some e"
  shows "err (fst (fst (RoundTrip s req w))) = Some e
       \<and> resp (fst (fst (RoundTrip s req w))) = None
       \<and> \<not> list_ex is_RoundTrip (snd (RoundTrip s req w))"
  using assms
  by (auto simp: rt_defs split: option.splits if_splits)

text \<open>
  With a body that was read, whatever the signer returns, the request is forwarded and the
  caller gets what the inner transport returns.
\<close>

lemma sign_error_with_body_dropped:
  assumes "\<not> already_signed req" and "Body req = Some b" and "failure b = None"
  shows "list_ex is_Sign (snd (RoundTrip s req w))
       \<and> list_ex is_RoundTrip (snd (RoundTrip s req w))
       \<and> (\<exists>r w2. fst (fst (RoundTrip s req w)) = fst (transport s r w2))"
  using assms
  by (auto simp: rt_defs split: option.splits)

text \<open>
  C1. Claimed: whenever the signer returns an error, the decorator returns that error and
  does not forward the request, for requests without and with a body. Evaluated here: the
  request \<open>post_request\<close> has the body \<open>abc\<close>, the signer \<open>failing_sign\<close> returns an error
  on every call. The decorator calls the signer once, then calls the inner transport once,
  and returns the transport's response with no error.
\<close>

theorem sign_error_with_body_is_forwarded:
  "length (filter is_Sign (snd (RoundTrip (stub_signer failing_sign) post_request world0))) = 1
   \<and> snd (failing_sign
            (sign_req (hd (filter is_Sign (snd (RoundTrip (stub_signer failing_sign) post_request world0)))))
            (Some (bytes_NewReader ''abc'')) ''es'' ''us-east-1'' (stub_clock 0))
       = Some (Err ''signing failed'')
   \<and> length (filter is_RoundTrip (snd (RoundTrip (stub_signer failing_sign) post_request world0))) = 1
   \<and> err (fst (fst (RoundTrip (stub_signer failing_sign) post_request world0))) = None
   \<and> resp (fst (fst (RoundTrip (stub_signer failing_sign) post_request world0))) = Some stub_response"
  by (simp add: rt_defs stub_defs already_signed_def Header_Set_def HasPrefix_def NopCloser_def
      bytes_NewReader_def)

subsection \<open>Requests that are already signed\<close>

text \<open>
  C2. A request whose \<^verbatim>\<open>Authorization\<close> header is present and whose first value begins
  with \<^verbatim>\<open>AWS4\<close> is handed to the inner transport as it is, in the world as it is: the
  decorator logs one line and calls the transport with the very request it received (no
  change of scheme, path or headers), it does not call the signer, and it returns what
  the transport returns.
\<close>

theorem already_signed_forwarded_unchanged:
  assumes "Header req ''Authorization'' = Some (v # vs)" and "HasPrefix v ''AWS4''"
  shows "RoundTrip s req w =
           (transport s req w,
            [Printf (Ctx req) ''Received request to sign that is already signed. Skipping.'' [],
             Transport_RoundTrip req])
       \<and> \<not> list_ex is_Sign (snd (RoundTrip s req w))"
proof -
  have "already_signed req"
    using assms by (auto simp: already_signed_iff)
  then show ?thesis
    by (simp add: RoundTrip_def)
qed

theorem already_signed_forwarded_unchanged_witness:
  "Header presigned_request ''Authorization'' = Some [''AWS4-HMAC-SHA256 Credential=earlier'']
   \<and> HasPrefix ''AWS4-HMAC-SHA256 Credential=earlier'' ''AWS4''
   \<and> RoundTrip (stub_signer stub_sign) presigned_request world0 =
        (stub_transport presigned_request world0,
         [Printf 0 ''Received request to sign that is already signed. Skipping.'' [],
          Transport_RoundTrip presigned_request])
   \<and> \<not> list_ex is_Sign (snd (RoundTrip (stub_signer stub_sign) presigned_request world0))"
proof -
  have h1: "Header presigned_request ''Authorization''
              = Some (''AWS4-HMAC-SHA256 Credential=earlier'' # [])"
    by (simp add: presigned_request_def get_request_def)
  have h2: "HasPrefix ''AWS4-HMAC-SHA256 Credential=earlier'' ''AWS4''"
    by (simp add: HasPrefix_def)
  have c: "Ctx presigned_request = 0"
    by (simp add: presigned_request_def get_request_def)
  show ?thesis
    using already_signed_forwarded_unchanged[OF h1 h2, of "stub_signer stub_sign" world0] h1 h2 c
    by (simp add: stub_signer_def)
qed

subsection \<open>The scheme\<close>

text \<open>
  On the path of line 100, taken by every request that is not already signed, the scheme
  is set to \<^verbatim>\<open>https\<close> before signing: every call of the signer receives the request with
  the scheme \<^verbatim>\<open>https\<close>, and, when neither the signer nor the inner transport changes the
  scheme of the request they are handed, the scheme is \<^verbatim>\<open>https\<close> after \<open>RoundTrip\<close>
  returns, whatever scheme the caller set.
\<close>

theorem scheme_https_unless_already_signed:
  assumes "\<not> already_signed req"
  shows "(\<forall>c \<in> set (snd (RoundTrip s req w)). is_Sign c \<longrightarrow> Scheme (URL (sign_req c)) = ''https'')
       \<and> ((\<forall>r b sv rg t. Scheme (URL (fst (v4 s r b sv rg t))) = Scheme (URL r))
            \<and> (\<forall>r w2. Scheme (URL (req_after (fst (transport s r w2)))) = Scheme (URL r))
          \<longrightarrow> Scheme (URL (req_after (fst (fst (RoundTrip s req w))))) = ''https'')"
  using assms
  by (auto simp: rt_defs Scheme_normalize_URL split: option.splits)

theorem scheme_https_unless_already_signed_witness:
  "\<not> already_signed get_request
   \<and> Scheme (URL get_request) = ''http''
   \<and> signed_call \<in> set (snd (RoundTrip (stub_signer stub_sign) get_request world0))
   \<and> is_Sign signed_call
   \<and> Scheme (URL (sign_req signed_call)) = ''https''
   \<and> Scheme (URL (req_after (fst (fst (RoundTrip (stub_signer stub_sign) get_request world0)))))
       = ''https''"
proof -
  have h: "\<not> already_signed get_request"
    by (simp add: already_signed_def get_request_def)
  have f: "(\<forall>r b sv rg t. Scheme (URL (fst (v4 (stub_signer stub_sign) r b sv rg t))) = Scheme (URL r))
         \<and> (\<forall>r w2. Scheme (URL (req_after (fst (transport (stub_signer stub_sign) r w2))))
                     = Scheme (URL r))"
    by (simp add: stub_signer_def stub_sign_def stub_transport_def)
  show ?thesis
    using scheme_https_unless_already_signed[OF h, of "stub_signer stub_sign" world0]
      f h signed_call_in_calls
    by (simp add: get_request_def)
qed

text \<open>
  C3. Claimed, as the comment on \<^verbatim>\<open>RoundTrip\<close> also says (\<^verbatim>\<open>The scheme for all
  requests will be changed to HTTPS\<close>): after \<open>RoundTrip\<close> returns, the scheme of the request is
  \<^verbatim>\<open>https\<close>, whatever the caller set. Evaluated here: \<open>presigned_request\<close> carries an
  \<^verbatim>\<open>Authorization\<close> header that begins with \<^verbatim>\<open>AWS4\<close> and the scheme \<^verbatim>\<open>http\<close>. The early
  return of lines 95 to 98 comes before line 100, so the request is forwarded and its scheme
  is still \<^verbatim>\<open>http\<close> after \<open>RoundTrip\<close> returns.
\<close>

theorem scheme_kept_when_already_signed:
  "Scheme (URL presigned_request) = ''http''
   \<and> Scheme (URL (req_after (fst (fst (RoundTrip (stub_signer stub_sign) presigned_request world0)))))
       = ''http''
   \<and> Scheme (URL (req_after (fst (fst (RoundTrip (stub_signer stub_sign) presigned_request world0)))))
       \<noteq> ''https''"
  by (simp add: rt_defs stub_defs already_signed_def HasPrefix_def)

subsection \<open>Construction\<close>



text \<open>
  C10. Called with a nil client, a signer and non-empty names, \<open>New\<close> returns the address
  of the process-wide default client and writes the decorator into the \<open>Transport\<close> field
  of the client stored there: the default client is the same address as before, its other
  field is as before, every other client is as before, and whoever sends through the
  default client from now on sends through the decorator, which wraps the transport the
  default client used before.
\<close>

theorem New_nil_client_overwrites_DefaultClient:
  assumes "sv \<noteq> []" and "rg \<noteq> []"
  shows "fst (New (Some sign) None sv rg cl g) = (Some (DefaultClient g), None)
       \<and> DefaultClient (snd (New (Some sign) None sv rg cl g)) = DefaultClient g
       \<and> Client_transport (snd (New (Some sign) None sv rg cl g)) (DefaultClient g)
           = Signer_RoundTripper
               \<lparr>transport = Client_transport g (DefaultClient g), v4 = sign, service = sv,
                region = rg,
                logger = (case cl of None \<Rightarrow> DefaultLogger (log_New Discard [] 0) | Some l \<Rightarrow> l)\<rparr>
       \<and> Timeout (clients (snd (New (Some sign) None sv rg cl g)) (DefaultClient g))
           = Timeout (clients g (DefaultClient g))
       \<and> (\<forall>a. a \<noteq> DefaultClient g
            \<longrightarrow> clients (snd (New (Some sign) None sv rg cl g)) a = clients g a)"
  using assms by (simp add: New_def Client_transport_def Let_def)

theorem New_nil_client_overwrites_DefaultClient_witness:
  "''es'' \<noteq> [] \<and> ''us-east-1'' \<noteq> []
   \<and> Transport (clients globals0 (DefaultClient globals0)) = None
   \<and> fst (New (Some stub_sign) None ''es'' ''us-east-1'' None globals0)
       = (Some (DefaultClient globals0), None)
   \<and> Client_transport (snd (New (Some stub_sign) None ''es'' ''us-east-1'' None globals0))
        (DefaultClient globals0)
       = Signer_RoundTripper (stub_signer stub_sign)
   \<and> clients (snd (New (Some stub_sign) None ''es'' ''us-east-1'' None globals0)) 1
       = clients globals0 1"
proof -
  have h1: "''es'' \<noteq> []" and h2: "''us-east-1'' \<noteq> []"
    by simp_all
  have t: "Client_transport globals0 (DefaultClient globals0) = stub_transport"
    by (simp add: Client_transport_def globals0_def)
  have d: "(1::nat) \<noteq> DefaultClient globals0"
    by (simp add: globals0_def)
  show ?thesis
    using New_nil_client_overwrites_DefaultClient[OF h1 h2, of stub_sign None globals0] t d
    by (simp add: stub_signer_def globals0_def)
qed

subsection \<open>The body\<close>




text \<open>
  C6, as claimed, fails: a request without a body that is already signed is forwarded
  and the signer is not called at all.
\<close>

theorem signer_not_invoked_when_already_signed:
  "Body presigned_request = None
   \<and> filter is_Sign (snd (RoundTrip (stub_signer stub_sign) presigned_request world0)) = []"
  by (simp add: rt_defs stub_defs already_signed_def HasPrefix_def)

text \<open>
  C6, amended. For every request that is not already signed: when it has no body, the
  signer is called exactly once, with the nil reader; when it has a body whose read
  succeeds with the bytes \<open>d\<close>, the signer is called exactly once, with a reader of its own
  that holds exactly \<open>d\<close>.
\<close>

theorem signer_body_argument:
  assumes "\<not> already_signed req"
  shows "(Body req = None \<longrightarrow> map sign_body (filter is_Sign (snd (RoundTrip s req w))) = [None])
       \<and> (\<forall>b d. Body req = Some b \<and> fst (ReadAll b) = (d, None)
            \<longrightarrow> map sign_body (filter is_Sign (snd (RoundTrip s req w)))
                  = [Some (bytes_NewReader d)]
              \<and> fst (ReadAll (bytes_NewReader d)) = (d, None))"
  using assms
  by (auto simp: rt_defs bytes_NewReader_def split: option.splits)

theorem signer_body_argument_witness:
  "\<not> already_signed get_request
   \<and> Body get_request = None
   \<and> map sign_body (filter is_Sign (snd (RoundTrip (stub_signer stub_sign) get_request world0)))
       = [None]
   \<and> \<not> already_signed post_request
   \<and> Body post_request = Some (Reader ''abc'' None)
   \<and> fst (ReadAll (Reader ''abc'' None)) = (''abc'', None)
   \<and> map sign_body (filter is_Sign (snd (RoundTrip (stub_signer stub_sign) post_request world0)))
       = [Some (Reader ''abc'' None)]"
proof -
  have g: "\<not> already_signed get_request" and p: "\<not> already_signed post_request"
    by (simp_all add: already_signed_def get_request_def post_request_def)
  have bg: "Body get_request = None" and bp: "Body post_request = Some (Reader ''abc'' None)"
    by (simp_all add: get_request_def post_request_def)
  have r: "fst (ReadAll (Reader ''abc'' None)) = (''abc'', None)"
    by (simp add: ReadAll_def)
  show ?thesis
    using signer_body_argument[OF g, of "stub_signer stub_sign" world0]
      signer_body_argument[OF p, of "stub_signer stub_sign" world0] g p bg bp r
    by (simp add: bytes_NewReader_def)
qed

text \<open>
  C7. When the decorator reads the body of a request and the read fails, it returns the
  read error and no response, it does not call the signer, and it does not call the inner
  transport.
\<close>

theorem body_read_error_aborts:
  assumes "Body_ReadAll b \<in> set (snd (RoundTrip s req w))"
    and "snd (fst (ReadAll b)) = Some e"
  shows "err (fst (fst (RoundTrip s req w))) = Some e
       \<and> resp (fst (fst (RoundTrip s req w))) = None
       \<and> \<not> list_ex is_Sign (snd (RoundTrip s req w))
       \<and> \<not> list_ex is_RoundTrip (snd (RoundTrip s req w))"
proof -
  have "\<not> already_signed req" and "Body req = Some b"
    using ReadAll_call_origin[OF assms(1)] by simp_all
  moreover have "failure b = Some e"
    using assms(2) by (simp add: ReadAll_def)
  ultimately show ?thesis
    by (simp add: rt_defs)
qed

theorem body_read_error_aborts_witness:
  "Body_ReadAll (Reader ''ab'' (Some (Err ''unexpected EOF'')))
     \<in> set (snd (RoundTrip (stub_signer stub_sign) broken_body_request world0))
   \<and> snd (fst (ReadAll (Reader ''ab'' (Some (Err ''unexpected EOF''))))) = Some (Err ''unexpected EOF'')
   \<and> err (fst (fst (RoundTrip (stub_signer stub_sign) broken_body_request world0)))
       = Some (Err ''unexpected EOF'')
   \<and> resp (fst (fst (RoundTrip (stub_signer stub_sign) broken_body_request world0))) = None
   \<and> \<not> list_ex is_Sign (snd (RoundTrip (stub_signer stub_sign) broken_body_request world0))
   \<and> \<not> list_ex is_RoundTrip (snd (RoundTrip (stub_signer stub_sign) broken_body_request world0))"
proof -
  have h1: "Body_ReadAll (Reader ''ab'' (Some (Err ''unexpected EOF'')))
              \<in> set (snd (RoundTrip (stub_signer stub_sign) broken_body_request world0))"
    by (simp add: rt_defs stub_defs already_signed_def Header_Set_def)
  have h2: "snd (fst (ReadAll (Reader ''ab'' (Some (Err ''unexpected EOF'')))))
              = Some (Err ''unexpected EOF'')"
    by (simp add: ReadAll_def)
  show ?thesis
    using body_read_error_aborts[OF h1 h2] h1 h2 by simp
qed

subsection \<open>The timestamp\<close>



subsection \<open>Normalising the URL\<close>

text \<open>
  What \<open>EscapePath\<close> writes for an escaped byte is a percent sign and two hexadecimal
  digits; it writes \<^verbatim>\<open>%2C\<close> for the comma and for no other byte.
\<close>

lemma below_16_cases:
  "n < (16::nat) \<Longrightarrow> n \<in> {0, 1, 2, 3, 4, 5, 6, 7, 8, 9, 10, 11, 12, 13, 14, 15}"
  by simp presburger

lemma upper_hex_digit_not_percent: "n < 16 \<Longrightarrow> upper_hex_digit n \<noteq> CHR ''%''"
  by (drule below_16_cases) (auto simp: upper_hex_digit_def)

lemma upper_hex_digit_2: "n < 16 \<Longrightarrow> upper_hex_digit n = CHR ''2'' \<longleftrightarrow> n = 2"
  by (drule below_16_cases) (auto simp: upper_hex_digit_def)

lemma upper_hex_digit_C: "n < 16 \<Longrightarrow> upper_hex_digit n = CHR ''C'' \<longleftrightarrow> n = 12"
  by (drule below_16_cases) (auto simp: upper_hex_digit_def)

lemma of_char_below_256: "(of_char c :: nat) < 256"
  by (metis of_char_mod_256 mod_less_divisor zero_less_numeral)

lemma comma_code: "(of_char c :: nat) = 44 \<longleftrightarrow> c = CHR '',''"
proof
  assume "(of_char c :: nat) = 44"
  then have "(of_char c :: nat) = of_char CHR '',''"
    by simp
  then show "c = CHR '',''"
    by (simp only: of_char_eq_iff)
qed simp

lemma kept_byte_is_plain:
  "noEscape c \<or> c = CHR ''/'' \<Longrightarrow> c \<noteq> CHR ''%'' \<and> c \<noteq> CHR '',''"
  by (auto simp: noEscape_def)

lemma percent_02X_comma: "percent_02X c = ''%2C'' \<longleftrightarrow> c = CHR '',''"
proof -
  have d: "(of_char c :: nat) div 16 < 16" and m: "(of_char c :: nat) mod 16 < 16"
    using of_char_below_256[of c] by presburger+
  have "percent_02X c = ''%2C''
          \<longleftrightarrow> (of_char c :: nat) div 16 = 2 \<and> (of_char c :: nat) mod 16 = 12"
    by (simp add: percent_02X_def upper_hex_digit_2[OF d] upper_hex_digit_C[OF m])
  also have "\<dots> \<longleftrightarrow> (of_char c :: nat) = 44"
    by presburger
  finally show ?thesis
    by (simp add: comma_code)
qed

lemma Contains_percent_02X:
  "Contains (percent_02X c @ rest) ''%2C'' \<longleftrightarrow> c = CHR '','' \<or> Contains rest ''%2C''"
proof -
  have d: "(of_char c :: nat) div 16 < 16" and m: "(of_char c :: nat) mod 16 < 16"
    using of_char_below_256[of c] by presburger+
  obtain h1 h2 where h: "percent_02X c = [CHR ''%'', h1, h2]" "h1 \<noteq> CHR ''%''" "h2 \<noteq> CHR ''%''"
    using upper_hex_digit_not_percent[OF d] upper_hex_digit_not_percent[OF m]
    by (simp add: percent_02X_def)
  have "Contains (percent_02X c @ rest) ''%2C''
          \<longleftrightarrow> percent_02X c = ''%2C'' \<or> Contains rest ''%2C''"
    using h by (auto simp: HasPrefix_def)
  then show ?thesis
    by (simp add: percent_02X_comma)
qed

lemma Contains_EscapePath:
  "Contains (EscapePath p False) ''%2C'' \<longleftrightarrow> CHR '','' \<in> set p"
proof (induction p)
  case Nil
  show ?case
    by (simp add: HasPrefix_def)
next
  case (Cons c p)
  show ?case
  proof (cases "noEscape c \<or> c = CHR ''/''")
    case True
    then have "c \<noteq> CHR ''%''" and "c \<noteq> CHR '',''"
      using kept_byte_is_plain by auto
    with True Cons show ?thesis
      by (auto simp: HasPrefix_def)
  next
    case False
    with Cons show ?thesis
      by (auto simp: Contains_percent_02X)
  qed
qed

lemma length_EscapePath: "length p \<le> length (EscapePath p sep)"
  by (induction p) (auto simp: percent_02X_def)

lemma EscapePath_longer:
  "CHR ''%'' \<in> set p \<Longrightarrow> length p < length (EscapePath p False)"
proof (induction p)
  case Nil
  then show ?case
    by simp
next
  case (Cons c p)
  show ?case
  proof (cases "c = CHR ''%''")
    case True
    then have "\<not> (noEscape c \<or> c = CHR ''/'')"
      using kept_byte_is_plain by auto
    then show ?thesis
      using length_EscapePath[of p False] by (simp add: percent_02X_def)
  next
    case False
    with Cons have "length p < length (EscapePath p False)"
      by simp
    then show ?thesis
      by (simp add: percent_02X_def)
  qed
qed

lemma Contains_gives_percent: "Contains p ''%2C'' \<Longrightarrow> CHR ''%'' \<in> set p"
  by (induction p) (auto simp: HasPrefix_def take_Suc_conv_app_nth dest: in_set_takeD)

text \<open>
  C8, as claimed, fails: a raw path with a literal comma and \<^verbatim>\<open>%2C\<close> is escaped again by
  the second application, because the first turns the comma into \<^verbatim>\<open>%2C\<close>.
\<close>

theorem normalize_URL_not_idempotent:
  "RawPath (normalize_URL comma_url) = ''/a%2Cb%252Cc''
   \<and> RawPath (normalize_URL (normalize_URL comma_url)) = ''/a%252Cb%25252Cc''
   \<and> normalize_URL (normalize_URL comma_url) \<noteq> normalize_URL comma_url"
proof -
  have 1: "normalize_URL comma_url = comma_url\<lparr>Scheme := ''https'', RawPath := ''/a%2Cb%252Cc''\<rparr>"
    by (simp add: normalize_URL_def comma_url_def HasPrefix_def noEscape_def percent_02X_def
        upper_hex_digit_def)
  have 2: "normalize_URL (normalize_URL comma_url)
             = comma_url\<lparr>Scheme := ''https'', RawPath := ''/a%252Cb%25252Cc''\<rparr>"
    unfolding 1
    by (simp add: normalize_URL_def comma_url_def HasPrefix_def noEscape_def percent_02X_def
        upper_hex_digit_def)
  show ?thesis
    unfolding 2 unfolding 1 by (simp add: comma_url_def)
qed

text \<open>
  C8, amended. Setting the scheme to \<^verbatim>\<open>https\<close> and escaping a raw path that contains
  \<^verbatim>\<open>%2C\<close> is idempotent on exactly the URLs whose raw path does not contain both
  \<^verbatim>\<open>%2C\<close> and a literal comma; in particular on every URL whose raw path has no
  literal comma.
\<close>

theorem normalize_URL_idempotent_iff:
  "normalize_URL (normalize_URL u) = normalize_URL u
     \<longleftrightarrow> \<not> (Contains (RawPath u) ''%2C'' \<and> CHR '','' \<in> set (RawPath u))"
proof (cases "Contains (RawPath u) ''%2C''")
  case False
  then show ?thesis
    by (simp add: normalize_URL_def)
next
  case True
  let ?E = "EscapePath (RawPath u) False"
  show ?thesis
  proof (cases "CHR '','' \<in> set (RawPath u)")
    case False
    then have "\<not> Contains ?E ''%2C''"
      by (simp add: Contains_EscapePath)
    with True False show ?thesis
      by (simp add: normalize_URL_def)
  next
    case comma: True
    then have again: "Contains ?E ''%2C''"
      by (simp add: Contains_EscapePath)
    then have "length ?E < length (EscapePath ?E False)"
      using EscapePath_longer[OF Contains_gives_percent] by simp
    then have "EscapePath ?E False \<noteq> ?E"
      by auto
    with True again
    have "RawPath (normalize_URL (normalize_URL u)) \<noteq> RawPath (normalize_URL u)"
      by (simp add: normalize_URL_def)
    then have "normalize_URL (normalize_URL u) \<noteq> normalize_URL u"
      by auto
    with True comma show ?thesis
      by simp
  qed
qed

theorem normalize_URL_idempotent_iff_witness:
  "Contains (RawPath (URL get_request)) ''%2C''
   \<and> CHR '','' \<notin> set (RawPath (URL get_request))
   \<and> normalize_URL (normalize_URL (URL get_request)) = normalize_URL (URL get_request)"
proof -
  have c: "Contains (RawPath (URL get_request)) ''%2C''"
    by (simp add: get_request_def HasPrefix_def)
  have n: "CHR '','' \<notin> set (RawPath (URL get_request))"
    by (simp add: get_request_def)
  show ?thesis
    using normalize_URL_idempotent_iff[of "URL get_request"] c n by simp
qed

end
